theory Spec2Isabelle
  imports Complex_Main "HOL-Library.Multiset"
begin

section \<open>JavaScript strings\<close>

text \<open>
  A string is a list of characters; one character stands for one UTF-16 code unit below 256,
  which for the ASCII log files and model names of this program is also one byte of the file.
  \<open>String.prototype.trim\<close> removes the ECMAScript white space and line terminators, which in
  that range are the code units 9 to 13, 32 and 160.
\<close>

definition isWhiteSpace :: "char \<Rightarrow> bool" where
  "isWhiteSpace c = (c \<in> set [CHR 0x09, CHR 0x0A, CHR 0x0B, CHR 0x0C, CHR 0x0D, CHR 0x20, CHR 0xA0])"

definition isDigit :: "char \<Rightarrow> bool" where
  "isDigit c = (c \<in> set ''0123456789'')"

definition trim :: "string \<Rightarrow> string" where
  "trim s = rev (dropWhile isWhiteSpace (rev (dropWhile isWhiteSpace s)))"

definition startsWith :: "string \<Rightarrow> string \<Rightarrow> bool" where
  "startsWith s p = (take (length p) s = p)"

text \<open>\<open>s.indexOf(p)\<close>: the first position where \<open>p\<close> occurs, \<open>None\<close> for JavaScript's -1.\<close>

fun indexOf :: "string \<Rightarrow> string \<Rightarrow> nat option" where
  "indexOf [] p = (if p = [] then Some 0 else None)"
| "indexOf (c # cs) p =
     (if startsWith (c # cs) p then Some 0 else map_option Suc (indexOf cs p))"

definition includesStr :: "string \<Rightarrow> string \<Rightarrow> bool" where
  "includesStr s p = (indexOf s p \<noteq> None)"

text \<open>\<open>s.lastIndexOf(c)\<close> for a one-character pattern.\<close>

definition lastIndexOf :: "string \<Rightarrow> char \<Rightarrow> nat option" where
  "lastIndexOf s c =
     (if c \<in> set s then Some (length s - 1 - length (takeWhile (\<lambda>x. x \<noteq> c) (rev s))) else None)"

text \<open>\<open>s.replace(a, b)\<close> with one-character strings: only the first occurrence is replaced.\<close>

fun replaceFirst :: "string \<Rightarrow> char \<Rightarrow> char \<Rightarrow> string" where
  "replaceFirst [] a b = []"
| "replaceFirst (c # cs) a b = (if c = a then b # cs else c # replaceFirst cs a b)"

text \<open>
  \<open>s.match(/-v\d+:\d+$/)\<close>: the length of the match, if any. The pattern is anchored at the
  end and its digit runs are delimited by the non-digits \<open>:\<close> and \<open>v\<close>, so there is at most one
  match; it is read off the reversed string.
\<close>

definition matchVersion :: "string \<Rightarrow> nat option" where
  "matchVersion s =
     (let r = rev s;
          d2 = takeWhile isDigit r;
          r1 = dropWhile isDigit r;
          d1 = takeWhile isDigit (drop 1 r1);
          r2 = dropWhile isDigit (drop 1 r1)
      in if d2 \<noteq> [] \<and> take 1 r1 = '':'' \<and> d1 \<noteq> [] \<and> take 2 r2 = ''v-''
         then Some (length d2 + 1 + length d1 + 2) else None)"

text \<open>\<open>s.match(/-\d{8}$/)\<close>: a match is the last nine characters, so its length is 9.\<close>

definition matchDate :: "string \<Rightarrow> nat option" where
  "matchDate s =
     (let t = drop (length s - 9) s
      in if 9 \<le> length s \<and> take 1 t = ''-'' \<and> list_all isDigit (drop 1 t)
         then Some 9 else None)"

section \<open>Model name normalizer\<close>

definition KNOWN_CLAUDE_BASES :: "string list" where
  "KNOWN_CLAUDE_BASES =
     [''claude-haiku-4-5'', ''claude-opus-4-5'', ''claude-sonnet-4-5'',
      ''claude-opus-4-20250514'', ''claude-opus-4-1'', ''claude-sonnet-4-20250514'',
      ''claude-opus-4-6'']"

definition KNOWN_CODEX_BASES :: "string list" where
  "KNOWN_CODEX_BASES = [''gpt-5'', ''gpt-5.1'', ''gpt-5.2'']"

text \<open>
  \<open>normalizeCodexModel\<close>, a definition for each of its steps, composed in the order of the
  source: trim, strip the prefix \<open>openai/\<close>, cut at the first \<open>-codex\<close> when what precedes it
  is a known base.
\<close>

definition stripOpenai :: "string \<Rightarrow> string" where
  "stripOpenai t = (if startsWith t ''openai/'' then drop (length ''openai/'') t else t)"

definition stripCodexSuffix :: "string \<Rightarrow> string" where
  "stripCodexSuffix t =
     (case indexOf t ''-codex'' of
        Some codexIdx \<Rightarrow>
          (let base = take codexIdx t in if base \<in> set KNOWN_CODEX_BASES then base else t)
      | None \<Rightarrow> t)"

definition normalizeCodexModel :: "string \<Rightarrow> string" where
  "normalizeCodexModel raw = stripCodexSuffix (stripOpenai (trim raw))"

text \<open>
  \<open>normalizeClaudeModel\<close>, likewise: trim, strip the prefix \<open>anthropic.\<close>, keep what follows
  the last dot when it starts with \<open>claude-\<close>, strip a version suffix, turn the first \<open>@\<close>
  into a dash, strip a date suffix when what precedes it is a known base.
\<close>

definition stripAnthropic :: "string \<Rightarrow> string" where
  "stripAnthropic t = (if startsWith t ''anthropic.'' then drop (length ''anthropic.'') t else t)"

definition nestedTail :: "string \<Rightarrow> string option" where
  "nestedTail t =
     (if includesStr t ''claude-'' then
        (case lastIndexOf t (CHR ''.'') of
           Some lastDotIdx \<Rightarrow>
             (let tail = drop (lastDotIdx + 1) t
              in if startsWith tail ''claude-'' then Some tail else None)
         | None \<Rightarrow> None)
      else None)"

definition stripNested :: "string \<Rightarrow> string" where
  "stripNested t = (case nestedTail t of Some tail \<Rightarrow> tail | None \<Rightarrow> t)"

definition stripVersion :: "string \<Rightarrow> string" where
  "stripVersion t = (case matchVersion t of Some n \<Rightarrow> take (length t - n) t | None \<Rightarrow> t)"

definition replaceAt :: "string \<Rightarrow> string" where
  "replaceAt t = (if includesStr t ''@'' then replaceFirst t (CHR ''@'') (CHR ''-'') else t)"

definition stripDate :: "string \<Rightarrow> string" where
  "stripDate t =
     (case matchDate t of
        Some n \<Rightarrow>
          (let base = take (length t - n) t in if base \<in> set KNOWN_CLAUDE_BASES then base else t)
      | None \<Rightarrow> t)"

definition normalizeClaudeModel :: "string \<Rightarrow> string" where
  "normalizeClaudeModel raw =
     stripDate (replaceAt (stripVersion (stripNested (stripAnthropic (trim raw)))))"

text \<open>
  What one pass of each normalizer leaves behind when nothing is left for a second pass to
  strip: no surrounding white space and no vendor prefix and, for the Claude family, no nested
  dotted prefix, no version suffix and no \<open>@\<close> marker.
\<close>

definition codexStripped :: "string \<Rightarrow> bool" where
  "codexStripped y = (trim y = y \<and> \<not> startsWith y ''openai/'')"

definition claudeStripped :: "string \<Rightarrow> bool" where
  "claudeStripped y =
     (trim y = y \<and> \<not> startsWith y ''anthropic.'' \<and> nestedTail y = None \<and>
      matchVersion y = None \<and> \<not> includesStr y ''@'')"

section \<open>Pricing table and cost\<close>

text \<open>
  JavaScript numbers are modelled exactly: token counts are integers and rates and costs are
  rationals, so the binary rounding of IEEE doubles is left out. \<open>Math.round\<close> rounds to the
  nearest integer, a tie going up.
\<close>

record Tier =
  thresholdTokens :: int
  tierInput :: rat
  tierOutput :: rat
  tierCacheRead :: "rat option"
  tierCacheCreation :: "rat option"

text \<open>
  The fields \<open>input\<close> and \<open>output\<close> of the source are \<open>rateInput\<close> and \<open>rateOutput\<close> here
  (and \<open>tierInput\<close>, \<open>tierOutput\<close> in the tier).
\<close>

record PricingEntry =
  rateInput :: rat
  rateOutput :: rat
  cacheRead :: "rat option"
  cacheCreation :: "rat option"
  aboveThreshold :: "Tier option"

definition flat :: "rat \<Rightarrow> rat \<Rightarrow> rat option \<Rightarrow> rat option \<Rightarrow> PricingEntry" where
  "flat i out cr cc =
     \<lparr>rateInput = i, rateOutput = out, cacheRead = cr, cacheCreation = cc, aboveThreshold = None\<rparr>"

definition tiered ::
  "rat \<Rightarrow> rat \<Rightarrow> rat \<Rightarrow> rat \<Rightarrow> int \<Rightarrow> rat \<Rightarrow> rat \<Rightarrow> rat \<Rightarrow> rat \<Rightarrow> PricingEntry" where
  "tiered i out cr cc th ti tout tcr tcc =
     \<lparr>rateInput = i, rateOutput = out, cacheRead = Some cr, cacheCreation = Some cc,
      aboveThreshold = Some \<lparr>thresholdTokens = th, tierInput = ti, tierOutput = tout,
                              tierCacheRead = Some tcr, tierCacheCreation = Some tcc\<rparr>\<rparr>"

definition MODEL_PRICING_table :: "(string \<times> PricingEntry) list" where
  "MODEL_PRICING_table =
     [(''gpt-5'', flat (5/4) 10 (Some (1/8)) None),
      (''gpt-5-codex'', flat (5/4) 10 (Some (1/8)) None),
      (''gpt-5.1'', flat (5/4) 10 (Some (1/8)) None),
      (''gpt-5.2'', flat (7/4) 14 (Some (7/40)) None),
      (''gpt-5.2-codex'', flat (7/4) 14 (Some (7/40)) None),
      (''gpt-4o'', flat (5/2) 10 None None),
      (''gpt-4o-mini'', flat (15/100) (60/100) None None),
      (''claude-haiku-4-5'', flat 1 5 (Some (1/10)) (Some (5/4))),
      (''claude-haiku-4-5-20251001'', flat 1 5 (Some (1/10)) (Some (5/4))),
      (''claude-opus-4-5'', flat 5 25 (Some (1/2)) (Some (25/4))),
      (''claude-opus-4-5-20251101'', flat 5 25 (Some (1/2)) (Some (25/4))),
      (''claude-sonnet-4-5'', tiered 3 15 (3/10) (15/4) 200000 6 (45/2) (6/10) (15/2)),
      (''claude-sonnet-4-5-20250929'', tiered 3 15 (3/10) (15/4) 200000 6 (45/2) (6/10) (15/2)),
      (''claude-opus-4-1'', flat 15 75 (Some (3/2)) (Some (75/4))),
      (''claude-opus-4-20250514'', flat 15 75 (Some (3/2)) (Some (75/4))),
      (''claude-opus-4-6'', tiered 5 25 (1/2) (25/4) 200000 10 (75/2) 1 (25/2)),
      (''claude-opus-4-6-20260205'', tiered 5 25 (1/2) (25/4) 200000 10 (75/2) 1 (25/2)),
      (''claude-sonnet-4-20250514'', tiered 3 15 (3/10) (15/4) 200000 6 (45/2) (6/10) (15/2)),
      (''gemini-2.0-flash'', flat (10/100) (40/100) None None),
      (''deepseek-v3'', flat (27/100) (110/100) None None),
      (''deepseek-r1'', flat (55/100) (219/100) None None)]"

text \<open>\<open>MODEL_PRICING[model]\<close>, \<open>None\<close> for a model that has no entry.\<close>

definition MODEL_PRICING :: "string \<Rightarrow> PricingEntry option" where
  "MODEL_PRICING = map_of MODEL_PRICING_table"

definition jsRound :: "rat \<Rightarrow> int" where
  "jsRound x = \<lfloor>x + 1/2\<rfloor>"

text \<open>The helper \<open>tieredCost\<close> inside \<open>calculateCost\<close>.\<close>

definition tieredCost :: "int \<Rightarrow> rat \<Rightarrow> rat option \<Rightarrow> int option \<Rightarrow> rat" where
  "tieredCost tokens baseRate aboveRate threshold =
     (case (threshold, aboveRate) of
        (Some th, Some ar) \<Rightarrow>
          (let below = min tokens th;
               above = max (tokens - th) 0
           in (of_int below / 1000000) * baseRate + (of_int above / 1000000) * ar)
      | _ \<Rightarrow> (of_int tokens / 1000000) * baseRate)"

text \<open>The body of \<open>calculateCost\<close> once the pricing entry has been found.\<close>

definition costWith :: "PricingEntry \<Rightarrow> int \<Rightarrow> int \<Rightarrow> int \<Rightarrow> int \<Rightarrow> rat" where
  "costWith pricing inputTokens outputTokens cacheReadTokens cacheCreationTokens =
     (let tier = aboveThreshold pricing;
          threshold = map_option thresholdTokens tier;
          inputCost = tieredCost (max 0 inputTokens) (rateInput pricing)
                        (map_option tierInput tier) threshold;
          outputCost = tieredCost (max 0 outputTokens) (rateOutput pricing)
                         (map_option tierOutput tier) threshold;
          cacheReadCost = tieredCost (max 0 cacheReadTokens)
                            (case cacheRead pricing of Some r \<Rightarrow> r | None \<Rightarrow> 0)
                            (Option.bind tier tierCacheRead) threshold;
          cacheCreationCost = tieredCost (max 0 cacheCreationTokens)
                                (case cacheCreation pricing of Some r \<Rightarrow> r | None \<Rightarrow> 0)
                                (Option.bind tier tierCacheCreation) threshold;
          total = inputCost + outputCost + cacheReadCost + cacheCreationCost
      in of_int (jsRound (total * 1000000)) / 1000000)"

definition calculateCost :: "string \<Rightarrow> int \<Rightarrow> int \<Rightarrow> int \<Rightarrow> int \<Rightarrow> rat" where
  "calculateCost model inputTokens outputTokens cacheReadTokens cacheCreationTokens =
     (case MODEL_PRICING model of
        None \<Rightarrow> 0
      | Some pricing \<Rightarrow>
          costWith pricing inputTokens outputTokens cacheReadTokens cacheCreationTokens)"

section \<open>Usage ledger\<close>

datatype AiProvider = Anthropic | Openai | Google | Deepseek | OtherProvider

datatype AiRequestSource = Telegram | Discord | Api | ClaudeCode | OtherSource

text \<open>The argument of \<open>logRequest\<close>: an \<open>AiRequestLog\<close> without its \<open>estimatedCost\<close>.\<close>

record AiRequestLog =
  timestamp :: int
  provider :: AiProvider
  model :: string
  inputTokens :: int
  outputTokens :: int
  cacheReadInputTokens :: "int option"
  cacheCreationInputTokens :: "int option"
  source :: AiRequestSource
  sessionId :: "string option"

text \<open>A row of the table \<open>ai_requests\<close>, its columns in the order of \<open>CREATE TABLE\<close>.\<close>

record Row =
  row_id :: nat
  row_timestamp :: int
  row_provider :: AiProvider
  row_model :: string
  input_tokens :: int
  output_tokens :: int
  cache_read_input_tokens :: int
  cache_creation_input_tokens :: int
  estimated_cost :: rat
  row_source :: AiRequestSource
  session_id :: "string option"



text \<open>The columns of the unique index \<open>idx_ai_requests_dedup\<close> that \<open>initDb\<close> creates.\<close>

definition dedupKey :: "Row \<Rightarrow> int \<times> AiProvider \<times> string \<times> AiRequestSource \<times> int \<times> int" where
  "dedupKey r =
     (row_timestamp r, row_provider r, row_model r, row_source r, input_tokens r, output_tokens r)"









section \<open>JSON values and JavaScript conversions\<close>

datatype json =
  JNull | JBool bool | JNum rat | JStr string | JArr "json list" | JObj "(string \<times> json) list"

text \<open>A JavaScript value read from a log line: \<open>None\<close> is \<open>undefined\<close>, \<open>Some JNull\<close> is \<open>null\<close>.\<close>

type_synonym jsval = "json option"

text \<open>
  Property access \<open>v.k\<close> (and \<open>v?.k\<close>) for the property names this program reads: an object
  gives its member, every other value gives \<open>undefined\<close>. Reading a property of \<open>null\<close> without
  \<open>?.\<close> throws; the two places where that can happen are written out in the scanners.
\<close>

fun getProp :: "jsval \<Rightarrow> string \<Rightarrow> jsval" where
  "getProp (Some (JObj kvs)) k = map_of kvs k"
| "getProp _ k = None"

fun truthy :: "jsval \<Rightarrow> bool" where
  "truthy None = False"
| "truthy (Some JNull) = False"
| "truthy (Some (JBool b)) = b"
| "truthy (Some (JNum n)) = (n \<noteq> 0)"
| "truthy (Some (JStr s)) = (s \<noteq> [])"
| "truthy (Some (JArr xs)) = True"
| "truthy (Some (JObj kvs)) = True"

definition nullish :: "jsval \<Rightarrow> bool" where
  "nullish v = (v = None \<or> v = Some JNull)"

text \<open>The operator \<open>a ?? b\<close>.\<close>

definition orElse :: "jsval \<Rightarrow> jsval \<Rightarrow> jsval" where
  "orElse a b = (if nullish a then b else a)"

definition digitVal :: "char \<Rightarrow> int" where
  "digitVal c = int (of_char c) - 48"

text \<open>
  \<open>parseInt(s, 10)\<close>: leading white space, an optional sign, then the longest run of decimal
  digits; \<open>None\<close> is \<open>NaN\<close>.
\<close>

definition parseInt10 :: "string \<Rightarrow> int option" where
  "parseInt10 s =
     (let s1 = dropWhile isWhiteSpace s;
          neg = (take 1 s1 = ''-'');
          s2 = (if take 1 s1 = ''-'' \<or> take 1 s1 = ''+'' then drop 1 s1 else s1);
          ds = takeWhile isDigit s2;
          n = foldl (\<lambda>a c. 10 * a + digitVal c) 0 ds
      in if ds = [] then None else Some (if neg then - n else n))"

text \<open>The helper \<open>toInt\<close> of both scanners (\<open>parseInt(value, 10) || 0\<close> turns \<open>NaN\<close> into 0).\<close>

definition toInt :: "jsval \<Rightarrow> int" where
  "toInt v =
     (case v of
        Some (JNum n) \<Rightarrow> \<lfloor>n\<rfloor>
      | Some (JStr s) \<Rightarrow> (case parseInt10 s of Some n \<Rightarrow> n | None \<Rightarrow> 0)
      | _ \<Rightarrow> 0)"

text \<open>\<open>s.split(c)\<close> for a one-character separator: the pieces between separators, always at least one.\<close>

fun splitOn :: "char \<Rightarrow> string \<Rightarrow> string list" where
  "splitOn sep [] = [[]]"
| "splitOn sep (c # cs) =
     (if c = sep then [] # splitOn sep cs
      else (case splitOn sep cs of l # ls \<Rightarrow> (c # l) # ls | [] \<Rightarrow> [[c]]))"

text \<open>\<open>content.split('\n')\<close>.\<close>

definition splitNL :: "string \<Rightarrow> string list" where
  "splitNL s = splitOn (CHR 0x0A) s"

text \<open>\<open>String(n)\<close> for an integer: its decimal digits, after a minus sign when it is negative.\<close>

definition digitChar :: "int \<Rightarrow> char" where
  "digitChar d = ''0123456789'' ! nat d"

function showNat :: "int \<Rightarrow> string" where
  "showNat n =
     (if n < 10 then [digitChar n]
      else showNat (n div 10) @ [digitChar (n mod 10)])"
  by pat_completeness auto
termination
  by (relation "measure nat") auto

definition showInt :: "int \<Rightarrow> string" where
  "showInt i = (if i < 0 then ''-'' @ showNat (- i) else showNat i)"

text \<open>\<open>s.padStart(2, '0')\<close>.\<close>

definition pad2 :: "string \<Rightarrow> string" where
  "pad2 s = replicate (2 - length s) (CHR ''0'') @ s"

text \<open>
  What the scanners take from the JavaScript runtime, as parameters:
  \<^item> \<open>JSON_parse\<close> is \<open>JSON.parse\<close>, \<open>None\<close> when it throws;
  \<^item> \<open>localDate v\<close> is \<open>new Date(v)\<close> read in the local time zone: \<open>None\<close> for an invalid
    date, else \<open>getFullYear()\<close>, \<open>getMonth()\<close> (from 0) and \<open>getDate()\<close>;
  \<^item> \<open>String_of\<close> is the conversion of a value that is not a string inside a template
    literal.
\<close>

record platform =
  JSON_parse :: "string \<Rightarrow> json option"
  localDate :: "json \<Rightarrow> (int \<times> int \<times> int) option"
  String_of :: "json \<Rightarrow> string"

definition dayKeyFromISO :: "platform \<Rightarrow> jsval \<Rightarrow> string option" where
  "dayKeyFromISO P isoText =
     (case isoText of
        None \<Rightarrow> None
      | Some v \<Rightarrow>
          (case localDate P v of
             None \<Rightarrow> None
           | Some (year, month, day) \<Rightarrow>
               Some (showInt year @ ''-'' @ pad2 (showNat (month + 1)) @ ''-'' @ pad2 (showNat day))))"

definition template :: "platform \<Rightarrow> jsval \<Rightarrow> string" where
  "template P v =
     (case v of
        Some (JStr s) \<Rightarrow> s
      | Some j \<Rightarrow> String_of P j
      | None \<Rightarrow> ''undefined'')"

text \<open>The one exception a scan can raise: a method call on a value that has no such method.\<close>

datatype ScanError = TypeError

text \<open>
  A log file as one scan sees it: its content (one character per byte), its modification
  time, and whether it can be opened for reading. It does not change during the scan.
\<close>

record FileOnDisk =
  content :: string
  mtimeMs :: rat
  readable :: bool

section \<open>Message-oriented scanner\<close>

record ClaudeUsageEntry =
  cl_dayKey :: string
  cl_model :: string
  cl_inputTokens :: int
  cl_outputTokens :: int
  cl_cacheReadInputTokens :: int
  cl_cacheCreationInputTokens :: int
  cl_timestamp :: jsval
  cl_costUSD :: "rat option"

record ClaudeFileState =
  cl_filePath :: string
  cl_lastSize :: nat
  cl_lastMtimeMs :: rat
  cl_lastOffset :: nat
  cl_entries :: "ClaudeUsageEntry list"

text \<open>What one line contributes: nothing, an entry under a key, or an entry without key.\<close>

datatype ClaudeLine = Skipped | Keyed string ClaudeUsageEntry | Keyless ClaudeUsageEntry

text \<open>The body of the loop of \<open>parseFile\<close> after \<open>JSON.parse\<close> has returned \<open>obj\<close>.\<close>

definition claudeObject :: "platform \<Rightarrow> json \<Rightarrow> ScanError + ClaudeLine" where
  "claudeObject P obj =
     (if obj = JNull then Inl TypeError
      else if getProp (Some obj) ''type'' \<noteq> Some (JStr ''assistant'') then Inr Skipped
      else
        let tsText = getProp (Some obj) ''timestamp'' in
        if \<not> truthy tsText then Inr Skipped
        else case dayKeyFromISO P tsText of None \<Rightarrow> Inr Skipped | Some dayKey \<Rightarrow>
        let message = getProp (Some obj) ''message'' in
        if \<not> truthy message then Inr Skipped
        else
        let model = getProp message ''model'' in
        if \<not> truthy model \<or> model = Some (JStr ''<synthetic>'') then Inr Skipped
        else
        let usage = getProp message ''usage'' in
        if \<not> truthy usage then Inr Skipped
        else
        let inputTokens = max 0 (toInt (getProp usage ''input_tokens''));
            outputTokens = max 0 (toInt (getProp usage ''output_tokens''));
            cacheReadInputTokens = max 0 (toInt (getProp usage ''cache_read_input_tokens''));
            cacheCreationInputTokens = max 0 (toInt (getProp usage ''cache_creation_input_tokens''))
        in
        if inputTokens = 0 \<and> outputTokens = 0 \<and>
           cacheReadInputTokens = 0 \<and> cacheCreationInputTokens = 0 then Inr Skipped
        else
        let costUSD = (case getProp (Some obj) ''costUSD'' of Some (JNum c) \<Rightarrow> Some c | _ \<Rightarrow> None) in
        (case model of
           Some (JStr m) \<Rightarrow>
             (let entry = \<lparr>cl_dayKey = dayKey, cl_model = normalizeClaudeModel m,
                           cl_inputTokens = inputTokens, cl_outputTokens = outputTokens,
                           cl_cacheReadInputTokens = cacheReadInputTokens,
                           cl_cacheCreationInputTokens = cacheCreationInputTokens,
                           cl_timestamp = tsText, cl_costUSD = costUSD\<rparr>;
                  messageId = getProp message ''id'';
                  requestId = getProp (Some obj) ''requestId''
              in if truthy messageId \<and> truthy requestId
                 then Inr (Keyed (template P messageId @ '':'' @ template P requestId) entry)
                 else Inr (Keyless entry))
         | _ \<Rightarrow> Inl TypeError))"

definition claudeParseLine :: "platform \<Rightarrow> string \<Rightarrow> ScanError + ClaudeLine" where
  \<open>claudeParseLine P line =
     (if line = [] then Inr Skipped
      else if \<not> includesStr line ''"type":"assistant"'' \<and>
              \<not> includesStr line ''"type": "assistant"'' then Inr Skipped
      else if \<not> includesStr line ''"usage"'' then Inr Skipped
      else case JSON_parse P line of
             None \<Rightarrow> Inr Skipped
           | Some obj \<Rightarrow> claudeObject P obj)\<close>

text \<open>
  \<open>Map.prototype.set\<close> on a map kept in insertion order: a key that is present keeps its
  place and takes the new value, a new key goes to the end.
\<close>

fun mapSet :: "(string \<times> 'v) list \<Rightarrow> string \<Rightarrow> 'v \<Rightarrow> (string \<times> 'v) list" where
  "mapSet [] k v = [(k, v)]"
| "mapSet ((k', v') # m) k v =
     (if k' = k then (k, v) # m else (k', v') # mapSet m k v)"

text \<open>The loop over the lines, carrying \<open>entryByKey\<close> and \<open>keylessEntries\<close>.\<close>

fun claudeLoop ::
  "platform \<Rightarrow> (string \<times> ClaudeUsageEntry) list \<Rightarrow> ClaudeUsageEntry list \<Rightarrow> string list
     \<Rightarrow> ScanError + ((string \<times> ClaudeUsageEntry) list \<times> ClaudeUsageEntry list)" where
  "claudeLoop P entryByKey keylessEntries [] = Inr (entryByKey, keylessEntries)"
| "claudeLoop P entryByKey keylessEntries (line # lines) =
     (case claudeParseLine P line of
        Inl e \<Rightarrow> Inl e
      | Inr Skipped \<Rightarrow> claudeLoop P entryByKey keylessEntries lines
      | Inr (Keyed k entry) \<Rightarrow> claudeLoop P (mapSet entryByKey k entry) keylessEntries lines
      | Inr (Keyless entry) \<Rightarrow> claudeLoop P entryByKey (keylessEntries @ [entry]) lines)"

definition claudeParseFile ::
  "platform \<Rightarrow> FileOnDisk \<Rightarrow> nat \<Rightarrow> ScanError + ClaudeUsageEntry list" where
  "claudeParseFile P file startOffset =
     (if \<not> readable file then Inr []
      else if length (content file) \<le> startOffset then Inr []
      else case claudeLoop P [] [] (splitNL (drop startOffset (content file))) of
             Inl e \<Rightarrow> Inl e
           | Inr (entryByKey, keylessEntries) \<Rightarrow> Inr (map snd entryByKey @ keylessEntries))"

text \<open>
  \<open>scanFile\<close>: \<open>disk filePath\<close> is \<open>None\<close> when \<open>statSync\<close> throws. The result is the returned
  entries and the cache \<open>fileStates\<close> after the call.
\<close>

definition claudeScanFile ::
  "platform \<Rightarrow> (string \<rightharpoonup> FileOnDisk) \<Rightarrow> (string \<rightharpoonup> ClaudeFileState) \<Rightarrow> string
     \<Rightarrow> ScanError + (ClaudeUsageEntry list \<times> (string \<rightharpoonup> ClaudeFileState))" where
  "claudeScanFile P disk fileStates filePath =
     (case disk filePath of
        None \<Rightarrow> Inr ([], fileStates)
      | Some file \<Rightarrow>
          let size = length (content file);
              mtime = mtimeMs file;
              fullRescan =
                (case claudeParseFile P file 0 of
                   Inl e \<Rightarrow> Inl e
                 | Inr entries \<Rightarrow>
                     Inr (entries,
                          fileStates(filePath \<mapsto>
                            \<lparr>cl_filePath = filePath, cl_lastSize = size, cl_lastMtimeMs = mtime,
                             cl_lastOffset = size, cl_entries = entries\<rparr>)))
          in
          if size \<le> 0 then Inr ([], fileStates)
          else case fileStates filePath of
                 None \<Rightarrow> fullRescan
               | Some cached \<Rightarrow>
                   if cl_lastSize cached = size \<and> cl_lastMtimeMs cached = mtime
                   then Inr (cl_entries cached, fileStates)
                   else if size > cl_lastSize cached \<and> cl_lastOffset cached > 0 \<and>
                           cl_lastOffset cached \<le> size
                   then (case claudeParseFile P file (cl_lastOffset cached) of
                           Inl e \<Rightarrow> Inl e
                         | Inr newEntries \<Rightarrow>
                             let mergedEntries = cl_entries cached @ newEntries
                             in Inr (mergedEntries,
                                     fileStates(filePath \<mapsto>
                                       \<lparr>cl_filePath = filePath, cl_lastSize = size,
                                        cl_lastMtimeMs = mtime, cl_lastOffset = size,
                                        cl_entries = mergedEntries\<rparr>)))
                   else fullRescan)"

text \<open>
  \<open>scan\<close>: the walk over the roots is given by its result \<open>jsonlFiles\<close>, the paths found, in
  the order found. Every file is scanned, then the cache entries of paths not found are
  dropped.
\<close>

fun claudeScanFiles ::
  "platform \<Rightarrow> (string \<rightharpoonup> FileOnDisk) \<Rightarrow> (string \<rightharpoonup> ClaudeFileState) \<Rightarrow> string list
     \<Rightarrow> ScanError + (ClaudeUsageEntry list \<times> (string \<rightharpoonup> ClaudeFileState))" where
  "claudeScanFiles P disk fileStates [] = Inr ([], fileStates)"
| "claudeScanFiles P disk fileStates (filePath # rest) =
     (case claudeScanFile P disk fileStates filePath of
        Inl e \<Rightarrow> Inl e
      | Inr (entries, fileStates') \<Rightarrow>
          (case claudeScanFiles P disk fileStates' rest of
             Inl e \<Rightarrow> Inl e
           | Inr (allEntries, fileStates'') \<Rightarrow> Inr (entries @ allEntries, fileStates'')))"

definition claudeScan ::
  "platform \<Rightarrow> (string \<rightharpoonup> FileOnDisk) \<Rightarrow> string list \<Rightarrow> (string \<rightharpoonup> ClaudeFileState)
     \<Rightarrow> ScanError + (ClaudeUsageEntry list \<times> (string \<rightharpoonup> ClaudeFileState))" where
  "claudeScan P disk jsonlFiles fileStates =
     (case claudeScanFiles P disk fileStates jsonlFiles of
        Inl e \<Rightarrow> Inl e
      | Inr (allEntries, fileStates') \<Rightarrow> Inr (allEntries, fileStates' |` set jsonlFiles))"



section \<open>Counter-oriented scanner\<close>

record CodexUsageEntry =
  cx_dayKey :: string
  cx_model :: string
  cx_inputTokens :: int
  cx_cachedInputTokens :: int
  cx_outputTokens :: int
  cx_timestamp :: jsval

record CumulativeTotals =
  tot_input :: int
  tot_cached :: int
  tot_output :: int

record CodexFileState =
  cx_filePath :: string
  cx_lastSize :: nat
  cx_lastMtimeMs :: rat
  cx_lastOffset :: nat
  cx_lastTotals :: "CumulativeTotals option"
  cx_lastModel :: jsval
  cx_entries :: "CodexUsageEntry list"

text \<open>
  The state the loop of \<open>parseFile\<close> carries is \<open>currentModel\<close> (\<open>Some JNull\<close> for \<open>null\<close>) and
  \<open>previousTotals\<close> (\<open>None\<close> for \<open>null\<close>). One step gives the entry pushed, if any, and the
  state after the line.
\<close>

type_synonym CodexStep = "CodexUsageEntry option \<times> jsval \<times> CumulativeTotals option"

text \<open>The model name of a \<open>token_count\<close> line, before normalization.\<close>

definition codexModelOf :: "json \<Rightarrow> jsval \<Rightarrow> jsval" where
  "codexModelOf obj currentModel =
     (let payload = getProp (Some obj) ''payload'';
          info = getProp payload ''info'';
          modelFromInfo =
            orElse (getProp info ''model'')
              (orElse (getProp info ''model_name'')
                 (orElse (getProp payload ''model'') (getProp (Some obj) ''model'')))
      in orElse modelFromInfo (orElse currentModel (Some (JStr ''gpt-5''))))"

text \<open>The end of the loop body: the zero-delta test, the clamp and the push.\<close>

definition codexEmit ::
  "string \<Rightarrow> jsval \<Rightarrow> jsval \<Rightarrow> int \<Rightarrow> int \<Rightarrow> int \<Rightarrow> jsval \<Rightarrow> CumulativeTotals option
     \<Rightarrow> ScanError + CodexStep" where
  "codexEmit dayKey tsText modelValue deltaInput deltaCached deltaOutput currentModel previousTotals =
     (if deltaInput = 0 \<and> deltaCached = 0 \<and> deltaOutput = 0
      then Inr (None, currentModel, previousTotals)
      else
        let cachedClamped = min deltaCached deltaInput in
        (case modelValue of
           Some (JStr m) \<Rightarrow>
             Inr (Some \<lparr>cx_dayKey = dayKey, cx_model = normalizeCodexModel m,
                        cx_inputTokens = deltaInput, cx_cachedInputTokens = cachedClamped,
                        cx_outputTokens = deltaOutput, cx_timestamp = tsText\<rparr>,
                  currentModel, previousTotals)
         | _ \<Rightarrow> Inl TypeError))"

text \<open>The body of the loop after \<open>JSON.parse\<close> has returned \<open>obj\<close>.\<close>

definition codexObject ::
  "platform \<Rightarrow> jsval \<Rightarrow> CumulativeTotals option \<Rightarrow> json \<Rightarrow> ScanError + CodexStep" where
  "codexObject P currentModel previousTotals obj =
     (if obj = JNull then Inl TypeError
      else
        let type = getProp (Some obj) ''type'';
            tsText = getProp (Some obj) ''timestamp''
        in
        if type = Some (JStr ''turn_context'') then
          (let payload = getProp (Some obj) ''payload'' in
           if truthy payload then
             (let modelFromPayload = getProp payload ''model'';
                  info = getProp payload ''info'';
                  modelFromInfo = getProp info ''model''
              in Inr (None, orElse modelFromPayload (orElse modelFromInfo currentModel),
                      previousTotals))
           else Inr (None, currentModel, previousTotals))
        else if type \<noteq> Some (JStr ''event_msg'') then Inr (None, currentModel, previousTotals)
        else if \<not> truthy tsText then Inr (None, currentModel, previousTotals)
        else case dayKeyFromISO P tsText of
               None \<Rightarrow> Inr (None, currentModel, previousTotals)
             | Some dayKey \<Rightarrow>
        let payload = getProp (Some obj) ''payload'' in
        if \<not> truthy payload then Inr (None, currentModel, previousTotals)
        else if getProp payload ''type'' \<noteq> Some (JStr ''token_count'')
        then Inr (None, currentModel, previousTotals)
        else
        let info = getProp payload ''info'';
            model = codexModelOf obj currentModel;
            total = getProp info ''total_token_usage'';
            last = getProp info ''last_token_usage''
        in
        if truthy total then
          (let input = toInt (getProp total ''input_tokens'');
               cached = toInt (orElse (getProp total ''cached_input_tokens'')
                                      (getProp total ''cache_read_input_tokens''));
               output = toInt (getProp total ''output_tokens'');
               deltaInput =
                 max 0 (input - (case previousTotals of Some t \<Rightarrow> tot_input t | None \<Rightarrow> 0));
               deltaCached =
                 max 0 (cached - (case previousTotals of Some t \<Rightarrow> tot_cached t | None \<Rightarrow> 0));
               deltaOutput =
                 max 0 (output - (case previousTotals of Some t \<Rightarrow> tot_output t | None \<Rightarrow> 0))
           in codexEmit dayKey tsText model deltaInput deltaCached deltaOutput currentModel
                (Some \<lparr>tot_input = input, tot_cached = cached, tot_output = output\<rparr>))
        else if truthy last then
          (let deltaInput = max 0 (toInt (getProp last ''input_tokens''));
               deltaCached = max 0 (toInt (orElse (getProp last ''cached_input_tokens'')
                                                  (getProp last ''cache_read_input_tokens'')));
               deltaOutput = max 0 (toInt (getProp last ''output_tokens''))
           in codexEmit dayKey tsText model deltaInput deltaCached deltaOutput currentModel
                previousTotals)
        else Inr (None, currentModel, previousTotals))"

definition codexParseLine ::
  "platform \<Rightarrow> jsval \<Rightarrow> CumulativeTotals option \<Rightarrow> string \<Rightarrow> ScanError + CodexStep" where
  \<open>codexParseLine P currentModel previousTotals line =
     (if line = [] then Inr (None, currentModel, previousTotals)
      else
        let isEventMsg = (includesStr line ''"type":"event_msg"'' \<or>
                          includesStr line ''"type": "event_msg"'');
            isTurnContext = (includesStr line ''"type":"turn_context"'' \<or>
                             includesStr line ''"type": "turn_context"'')
        in
        if \<not> isEventMsg \<and> \<not> isTurnContext then Inr (None, currentModel, previousTotals)
        else if isEventMsg \<and> \<not> includesStr line ''"token_count"''
        then Inr (None, currentModel, previousTotals)
        else case JSON_parse P line of
               None \<Rightarrow> Inr (None, currentModel, previousTotals)
             | Some obj \<Rightarrow> codexObject P currentModel previousTotals obj)\<close>

text \<open>The loop over the lines; the entries pushed so far are the accumulator.\<close>

fun codexLoop ::
  "platform \<Rightarrow> CodexUsageEntry list \<Rightarrow> jsval \<Rightarrow> CumulativeTotals option \<Rightarrow> string list
     \<Rightarrow> ScanError + (CodexUsageEntry list \<times> jsval \<times> CumulativeTotals option)" where
  "codexLoop P entries currentModel previousTotals [] =
     Inr (entries, currentModel, previousTotals)"
| "codexLoop P entries currentModel previousTotals (line # lines) =
     (case codexParseLine P currentModel previousTotals line of
        Inl e \<Rightarrow> Inl e
      | Inr (None, currentModel', previousTotals') \<Rightarrow>
          codexLoop P entries currentModel' previousTotals' lines
      | Inr (Some entry, currentModel', previousTotals') \<Rightarrow>
          codexLoop P (entries @ [entry]) currentModel' previousTotals' lines)"

text \<open>\<open>parseFile\<close>: the result is \<open>(entries, lastModel, lastTotals)\<close>.\<close>

definition codexParseFile ::
  "platform \<Rightarrow> FileOnDisk \<Rightarrow> nat \<Rightarrow> jsval \<Rightarrow> CumulativeTotals option
     \<Rightarrow> ScanError + (CodexUsageEntry list \<times> jsval \<times> CumulativeTotals option)" where
  "codexParseFile P file startOffset initialModel initialTotals =
     (if \<not> readable file then Inr ([], initialModel, initialTotals)
      else if length (content file) \<le> startOffset then Inr ([], initialModel, initialTotals)
      else codexLoop P [] initialModel initialTotals
             (splitNL (drop startOffset (content file))))"

definition codexScanFile ::
  "platform \<Rightarrow> (string \<rightharpoonup> FileOnDisk) \<Rightarrow> (string \<rightharpoonup> CodexFileState) \<Rightarrow> string
     \<Rightarrow> ScanError + (CodexUsageEntry list \<times> (string \<rightharpoonup> CodexFileState))" where
  "codexScanFile P disk fileStates filePath =
     (case disk filePath of
        None \<Rightarrow> Inr ([], fileStates)
      | Some file \<Rightarrow>
          let size = length (content file);
              mtime = mtimeMs file;
              fullRescan =
                (case codexParseFile P file 0 (Some JNull) None of
                   Inl e \<Rightarrow> Inl e
                 | Inr (entries, lastModel, lastTotals) \<Rightarrow>
                     Inr (entries,
                          fileStates(filePath \<mapsto>
                            \<lparr>cx_filePath = filePath, cx_lastSize = size, cx_lastMtimeMs = mtime,
                             cx_lastOffset = size, cx_lastTotals = lastTotals,
                             cx_lastModel = lastModel, cx_entries = entries\<rparr>)))
          in
          if size \<le> 0 then Inr ([], fileStates)
          else case fileStates filePath of
                 None \<Rightarrow> fullRescan
               | Some cached \<Rightarrow>
                   if cx_lastSize cached = size \<and> cx_lastMtimeMs cached = mtime
                   then Inr (cx_entries cached, fileStates)
                   else if size > cx_lastSize cached \<and> cx_lastOffset cached > 0 \<and>
                           cx_lastOffset cached \<le> size
                   then (case codexParseFile P file (cx_lastOffset cached)
                                (cx_lastModel cached) (cx_lastTotals cached) of
                           Inl e \<Rightarrow> Inl e
                         | Inr (newEntries, lastModel, lastTotals) \<Rightarrow>
                             let mergedEntries = cx_entries cached @ newEntries
                             in Inr (mergedEntries,
                                     fileStates(filePath \<mapsto>
                                       \<lparr>cx_filePath = filePath, cx_lastSize = size,
                                        cx_lastMtimeMs = mtime, cx_lastOffset = size,
                                        cx_lastTotals = lastTotals, cx_lastModel = lastModel,
                                        cx_entries = mergedEntries\<rparr>)))
                   else fullRescan)"

fun codexScanFiles ::
  "platform \<Rightarrow> (string \<rightharpoonup> FileOnDisk) \<Rightarrow> (string \<rightharpoonup> CodexFileState) \<Rightarrow> string list
     \<Rightarrow> ScanError + (CodexUsageEntry list \<times> (string \<rightharpoonup> CodexFileState))" where
  "codexScanFiles P disk fileStates [] = Inr ([], fileStates)"
| "codexScanFiles P disk fileStates (filePath # rest) =
     (case codexScanFile P disk fileStates filePath of
        Inl e \<Rightarrow> Inl e
      | Inr (entries, fileStates') \<Rightarrow>
          (case codexScanFiles P disk fileStates' rest of
             Inl e \<Rightarrow> Inl e
           | Inr (allEntries, fileStates'') \<Rightarrow> Inr (entries @ allEntries, fileStates'')))"

definition codexScan ::
  "platform \<Rightarrow> (string \<rightharpoonup> FileOnDisk) \<Rightarrow> string list \<Rightarrow> (string \<rightharpoonup> CodexFileState)
     \<Rightarrow> ScanError + (CodexUsageEntry list \<times> (string \<rightharpoonup> CodexFileState))" where
  "codexScan P disk jsonlFiles fileStates =
     (case codexScanFiles P disk fileStates jsonlFiles of
        Inl e \<Rightarrow> Inl e
      | Inr (allEntries, fileStates') \<Rightarrow> Inr (allEntries, fileStates' |` set jsonlFiles))"





section \<open>Root directories\<close>

text \<open>
  What the root discovery takes from Node: \<open>path.basename\<close>, \<open>path.join\<close> (on the list of
  its arguments), \<open>os.homedir()\<close> and \<open>fs.existsSync\<close>.
\<close>

record node =
  basename :: "string \<Rightarrow> string"
  join :: "string list \<Rightarrow> string"
  homedir :: string
  existsSync :: "string \<Rightarrow> bool"

text \<open>The loop of \<open>getProjectRoots\<close> over the parts of the override, pushing onto \<open>roots\<close>.\<close>

fun projectRootsLoop :: "node \<Rightarrow> string list \<Rightarrow> string list \<Rightarrow> string list" where
  "projectRootsLoop N roots [] = roots"
| "projectRootsLoop N roots (part # parts) =
     (let trimmed = trim part in
      if trimmed = [] then projectRootsLoop N roots parts
      else if basename N trimmed = ''projects'' then projectRootsLoop N (roots @ [trimmed]) parts
      else projectRootsLoop N (roots @ [join N [trimmed, ''projects'']]) parts)"

text \<open>\<open>getProjectRoots\<close>; the argument is \<open>process.env.CLAUDE_CONFIG_DIR\<close>, \<open>None\<close> when unset.\<close>

definition getProjectRoots :: "node \<Rightarrow> string option \<Rightarrow> string list" where
  "getProjectRoots N CLAUDE_CONFIG_DIR =
     (let envVal = map_option trim CLAUDE_CONFIG_DIR in
      case envVal of
        Some v \<Rightarrow>
          if v \<noteq> [] then projectRootsLoop N [] (splitOn (CHR '','') v)
          else [join N [homedir N, ''.config'', ''claude'', ''projects''],
                join N [homedir N, ''.claude'', ''projects'']]
      | None \<Rightarrow>
          [join N [homedir N, ''.config'', ''claude'', ''projects''],
           join N [homedir N, ''.claude'', ''projects'']])"

text \<open>\<open>getSessionRoots\<close>; the argument is \<open>process.env.CODEX_HOME\<close>.\<close>

definition getSessionRoots :: "node \<Rightarrow> string option \<Rightarrow> string list" where
  "getSessionRoots N CODEX_HOME =
     (let envHome = map_option trim CODEX_HOME;
          codexHome = (case envHome of
                         Some v \<Rightarrow> if v \<noteq> [] then v else join N [homedir N, ''.codex'']
                       | None \<Rightarrow> join N [homedir N, ''.codex'']);
          sessionsDir = join N [codexHome, ''sessions''];
          archivedDir = join N [codexHome, ''archived_sessions''];
          roots = [sessionsDir]
      in if existsSync N archivedDir then roots @ [archivedDir] else roots)"

text \<open>
  The override rule as the specification words it, for a log family with subdirectory
  \<open>sub\<close>: the value is split on commas and each entry is a root, with \<open>sub\<close> appended unless
  the last segment of the entry is \<open>sub\<close> already.
\<close>

definition specOverrideRoots :: "node \<Rightarrow> string \<Rightarrow> string \<Rightarrow> string list" where
  "specOverrideRoots N sub v =
     map (\<lambda>entry. if basename N entry = sub then entry else join N [entry, sub])
         (splitOn (CHR '','') v)"

section \<open>Sample inputs\<close>



text \<open>
  Log lines as the test helpers \<open>makeAssistantLine\<close>, \<open>makeTurnContext\<close> and
  \<open>makeTokenCountEvent\<close> write them with \<open>JSON.stringify\<close>, each with the value that
  \<open>JSON.parse\<close> gives back for it.
\<close>

definition assistantLine :: "string \<Rightarrow> string \<Rightarrow> int \<Rightarrow> int \<Rightarrow> int \<Rightarrow> string" where
  \<open>assistantLine messageId requestId i out cr =
     ''{"type":"assistant","timestamp":"2026-02-07T10:00:00.000Z","requestId":"'' @ requestId @
     ''","message":{"id":"'' @ messageId @
     ''","model":"claude-sonnet-4-5-20250929","usage":{"input_tokens":'' @ showInt i @
     '',"output_tokens":'' @ showInt out @ '',"cache_read_input_tokens":'' @ showInt cr @
     '',"cache_creation_input_tokens":0}}}''\<close>

definition assistantObj :: "string \<Rightarrow> string \<Rightarrow> int \<Rightarrow> int \<Rightarrow> int \<Rightarrow> json" where
  "assistantObj messageId requestId i out cr =
     JObj [(''type'', JStr ''assistant''),
           (''timestamp'', JStr ''2026-02-07T10:00:00.000Z''),
           (''requestId'', JStr requestId),
           (''message'',
              JObj [(''id'', JStr messageId),
                    (''model'', JStr ''claude-sonnet-4-5-20250929''),
                    (''usage'',
                       JObj [(''input_tokens'', JNum (of_int i)),
                             (''output_tokens'', JNum (of_int out)),
                             (''cache_read_input_tokens'', JNum (of_int cr)),
                             (''cache_creation_input_tokens'', JNum 0)])])]"

definition turnContextLine :: "string \<Rightarrow> string" where
  \<open>turnContextLine m =
     ''{"type":"turn_context","timestamp":"2026-02-07T10:00:00.000Z","payload":{"model":"'' @ m @
     ''"}}''\<close>

definition turnContextObj :: "string \<Rightarrow> json" where
  "turnContextObj m =
     JObj [(''type'', JStr ''turn_context''),
           (''timestamp'', JStr ''2026-02-07T10:00:00.000Z''),
           (''payload'', JObj [(''model'', JStr m)])]"

definition tokenCountLine :: "int \<Rightarrow> int \<Rightarrow> int \<Rightarrow> string" where
  \<open>tokenCountLine i c out =
     ''{"type":"event_msg","timestamp":"2026-02-07T10:00:00.000Z","payload":{"type":"token_count","info":{"total_token_usage":{"input_tokens":'' @
     showInt i @ '',"cached_input_tokens":'' @ showInt c @ '',"output_tokens":'' @ showInt out @
     ''}}}}''\<close>

definition tokenCountObj :: "int \<Rightarrow> int \<Rightarrow> int \<Rightarrow> json" where
  "tokenCountObj i c out =
     JObj [(''type'', JStr ''event_msg''),
           (''timestamp'', JStr ''2026-02-07T10:00:00.000Z''),
           (''payload'',
              JObj [(''type'', JStr ''token_count''),
                    (''info'',
                       JObj [(''total_token_usage'',
                                JObj [(''input_tokens'', JNum (of_int i)),
                                      (''cached_input_tokens'', JNum (of_int c)),
                                      (''output_tokens'', JNum (of_int out))])])])]"

text \<open>
  A \<open>token_count\<close> line that names a model in three places: at the top of the line and in
  the payload it is \<open>gpt-4o\<close>, in the info structure it is \<open>gpt-5.2\<close>.
\<close>

definition threeModelsLine :: string where
  \<open>threeModelsLine =
     ''{"type":"event_msg","timestamp":"2026-02-07T10:00:00.000Z","model":"gpt-4o","payload":{"type":"token_count","model":"gpt-4o","info":{"model":"gpt-5.2","total_token_usage":{"input_tokens":100,"cached_input_tokens":0,"output_tokens":50}}}}''\<close>

definition threeModelsObj :: json where
  "threeModelsObj =
     JObj [(''type'', JStr ''event_msg''),
           (''timestamp'', JStr ''2026-02-07T10:00:00.000Z''),
           (''model'', JStr ''gpt-4o''),
           (''payload'',
              JObj [(''type'', JStr ''token_count''),
                    (''model'', JStr ''gpt-4o''),
                    (''info'',
                       JObj [(''model'', JStr ''gpt-5.2''),
                             (''total_token_usage'',
                                JObj [(''input_tokens'', JNum 100),
                                      (''cached_input_tokens'', JNum 0),
                                      (''output_tokens'', JNum 50)])])])]"

text \<open>
  A runtime for the samples: \<open>JSON.parse\<close> on the sample lines (every other text is taken as
  unparsable), the one sample time stamp read in a UTC time zone, and an empty conversion for
  values that are not strings (the samples have none in a template).
\<close>

definition samplePlatform :: platform where
  "samplePlatform =
     \<lparr>JSON_parse = map_of
        [(assistantLine ''msg_stream_1'' ''req_stream_1'' 100 10 0,
            assistantObj ''msg_stream_1'' ''req_stream_1'' 100 10 0),
         (assistantLine ''msg_stream_1'' ''req_stream_1'' 100 50 0,
            assistantObj ''msg_stream_1'' ''req_stream_1'' 100 50 0),
         (assistantLine ''msg_stream_1'' ''req_stream_1'' 100 100 0,
            assistantObj ''msg_stream_1'' ''req_stream_1'' 100 100 0),
         (assistantLine ''msg_002'' ''req_002'' 100 50 200,
            assistantObj ''msg_002'' ''req_002'' 100 50 200),
         (turnContextLine ''gpt-5'', turnContextObj ''gpt-5''),
         (tokenCountLine 100 0 50, tokenCountObj 100 0 50),
         (tokenCountLine 300 50 150, tokenCountObj 300 50 150),
         (tokenCountLine 500 100 250, tokenCountObj 500 100 250),
         (tokenCountLine 100 200 50, tokenCountObj 100 200 50),
         (threeModelsLine, threeModelsObj)],
      localDate = (\<lambda>v. case v of
                          JStr s \<Rightarrow> if s = ''2026-02-07T10:00:00.000Z'' then Some (2026, 1, 7) else None
                        | _ \<Rightarrow> None),
      String_of = (\<lambda>v. [])\<rparr>"

text \<open>A file written as \<open>lines.join('\n') + '\n'\<close>.\<close>

definition fragmentOf :: "string list \<Rightarrow> string" where
  "fragmentOf ls = concat (map (\<lambda>l. l @ [CHR 0x0A]) ls)"

definition fileOf :: "string list \<Rightarrow> FileOnDisk" where
  "fileOf ls = \<lparr>content = fragmentOf ls, mtimeMs = 0, readable = True\<rparr>"

text \<open>
  Node on the sample paths: they are absolute, without \<open>.\<close>, \<open>..\<close>, doubled or trailing
  slashes, where \<open>path.join\<close> puts a slash between its arguments and \<open>path.basename\<close> is what
  follows the last slash. The home directory is \<open>/home/u\<close> and no directory exists.
\<close>

fun joinSlash :: "string list \<Rightarrow> string" where
  "joinSlash [] = ''.''"
| "joinSlash [a] = a"
| "joinSlash (a # b # rest) = a @ ''/'' @ joinSlash (b # rest)"

definition sampleNode :: node where
  "sampleNode =
     \<lparr>basename = (\<lambda>p. rev (takeWhile (\<lambda>c. c \<noteq> CHR ''/'') (rev p))),
      join = joinSlash,
      homedir = ''/home/u'',
      existsSync = (\<lambda>p. False)\<rparr>"

section \<open>Properties of the model name normalizer\<close>

lemma length_dropWhile_eq: "length (dropWhile P xs) = length xs \<Longrightarrow> dropWhile P xs = xs"
proof (cases xs)
  case Nil
  then show ?thesis by simp
next
  case (Cons a list)
  assume eq: "length (dropWhile P xs) = length xs"
  have "length (dropWhile P list) \<le> length list" by (rule length_dropWhile_le)
  with eq Cons show ?thesis by (auto split: if_splits)
qed

lemma length_trim_le: "length (trim s) \<le> length s"
  unfolding trim_def
  by (metis length_dropWhile_le length_rev le_trans)

lemma length_trim_eq: "length (trim s) = length s \<Longrightarrow> trim s = s"
proof -
  assume a: "length (trim s) = length s"
  have 1: "length (dropWhile isWhiteSpace (rev (dropWhile isWhiteSpace s))) \<le> length (dropWhile isWhiteSpace s)"
    by (metis length_dropWhile_le length_rev)
  have 2: "length (dropWhile isWhiteSpace s) \<le> length s" by (rule length_dropWhile_le)
  from a 1 2 have e1: "length (dropWhile isWhiteSpace s) = length s" by (simp add: trim_def)
  hence d1: "dropWhile isWhiteSpace s = s" by (rule length_dropWhile_eq)
  from a d1 have "length (dropWhile isWhiteSpace (rev s)) = length (rev s)" by (simp add: trim_def)
  hence "dropWhile isWhiteSpace (rev s) = rev s" by (rule length_dropWhile_eq)
  with d1 show ?thesis by (simp add: trim_def)
qed

lemma length_stripOpenai_le: "length (stripOpenai t) \<le> length t"
  by (simp add: stripOpenai_def)

lemma length_stripOpenai_eq: "length (stripOpenai t) = length t \<Longrightarrow> \<not> startsWith t ''openai/''"
  by (auto simp: stripOpenai_def startsWith_def split: if_splits)

lemma stripCodexSuffix_cases:
  "stripCodexSuffix t = t \<or> stripCodexSuffix t \<in> set KNOWN_CODEX_BASES"
  by (auto simp: stripCodexSuffix_def Let_def split: option.splits)

lemma stripCodexSuffix_known: "b \<in> set KNOWN_CODEX_BASES \<Longrightarrow> stripCodexSuffix b = b"
  unfolding KNOWN_CODEX_BASES_def by (auto; code_simp)

lemma codexStripped_known: "b \<in> set KNOWN_CODEX_BASES \<Longrightarrow> codexStripped b"
  unfolding KNOWN_CODEX_BASES_def by (auto; code_simp)

lemma indexOf_le: "indexOf s p = Some i \<Longrightarrow> i \<le> length s"
  by (induction s arbitrary: i) (auto split: if_splits)

lemma length_stripCodexSuffix_le: "length (stripCodexSuffix t) \<le> length t"
  by (auto simp: stripCodexSuffix_def Let_def split: option.splits)

lemma codex_idem_if: "codexStripped (normalizeCodexModel x) \<Longrightarrow>
   normalizeCodexModel (normalizeCodexModel x) = normalizeCodexModel x"
  using stripCodexSuffix_cases [of "stripOpenai (trim x)"]
  by (auto simp: normalizeCodexModel_def codexStripped_def stripOpenai_def stripCodexSuffix_known)

lemma codex_idem_only_if:
  assumes "normalizeCodexModel y = y" shows "codexStripped y"
proof -
  have "length (stripCodexSuffix (stripOpenai (trim y))) = length y"
    using assms by (simp add: normalizeCodexModel_def)
  with length_stripCodexSuffix_le [of "stripOpenai (trim y)"]
       length_stripOpenai_le [of "trim y"] length_trim_le [of y]
  have a: "length (stripOpenai (trim y)) = length (trim y)" and b: "length (trim y) = length y"
    by linarith+
  from b have "trim y = y" by (rule length_trim_eq)
  moreover from a have "\<not> startsWith (trim y) ''openai/''" by (rule length_stripOpenai_eq)
  ultimately show ?thesis by (simp add: codexStripped_def)
qed


lemma length_stripAnthropic_le: "length (stripAnthropic t) \<le> length t"
  by (simp add: stripAnthropic_def)

lemma length_stripAnthropic_eq:
  "length (stripAnthropic t) = length t \<Longrightarrow> \<not> startsWith t ''anthropic.''"
  by (auto simp: stripAnthropic_def startsWith_def split: if_splits)

lemma nestedTail_shorter: "nestedTail t = Some u \<Longrightarrow> length u < length t"
proof -
  assume a: "nestedTail t = Some u"
  then obtain i where "lastIndexOf t (CHR ''.'') = Some i" and u: "u = drop (i + 1) t"
    by (auto simp: nestedTail_def Let_def split: if_splits option.splits)
  hence "CHR ''.'' \<in> set t" by (auto simp: lastIndexOf_def split: if_splits)
  hence "0 < length t" by (rule length_pos_if_in_set)
  with u show ?thesis by simp
qed

lemma length_stripNested_le: "length (stripNested t) \<le> length t"
  by (auto simp: stripNested_def split: option.splits dest: nestedTail_shorter less_imp_le)

lemma length_stripNested_eq: "length (stripNested t) = length t \<Longrightarrow> nestedTail t = None"
  by (auto simp: stripNested_def split: option.splits dest: nestedTail_shorter)

lemma matchVersion_pos: "matchVersion t = Some n \<Longrightarrow> 0 < n \<and> n \<le> length t"
proof -
  assume a: "matchVersion t = Some n"
  define r where "r = rev t"
  define r1 where "r1 = dropWhile isDigit r"
  define r2 where "r2 = dropWhile isDigit (drop 1 r1)"
  have unf: "matchVersion t =
     (if takeWhile isDigit r \<noteq> [] \<and> take 1 r1 = '':'' \<and>
         takeWhile isDigit (drop 1 r1) \<noteq> [] \<and> take 2 r2 = ''v-''
      then Some (length (takeWhile isDigit r) + 1 + length (takeWhile isDigit (drop 1 r1)) + 2)
      else None)"
    unfolding matchVersion_def Let_def r_def r1_def r2_def ..
  from a have n: "n = length (takeWhile isDigit r) + 1 + length (takeWhile isDigit (drop 1 r1)) + 2"
    and c: "take 1 r1 = '':''" and v: "take 2 r2 = ''v-''"
    unfolding unf by (simp_all split: if_splits)
  have l0: "length r = length (takeWhile isDigit r) + length r1"
    unfolding r1_def by (metis length_append takeWhile_dropWhile_id)
  from c have l1: "length r1 = 1 + length (drop 1 r1)" by (cases r1) auto
  have l2: "length (drop 1 r1) = length (takeWhile isDigit (drop 1 r1)) + length r2"
    unfolding r2_def by (metis length_append takeWhile_dropWhile_id)
  from v have l3: "2 \<le> length r2" by (cases r2; cases "tl r2") auto
  have lr: "length r = length t" by (simp add: r_def)
  from n l0 l1 l2 l3 lr show ?thesis by linarith
qed

lemma length_stripVersion_le: "length (stripVersion t) \<le> length t"
  by (auto simp: stripVersion_def split: option.splits)

lemma length_stripVersion_eq: "length (stripVersion t) = length t \<Longrightarrow> matchVersion t = None"
  by (auto simp: stripVersion_def split: option.splits dest: matchVersion_pos)

lemma length_replaceFirst: "length (replaceFirst s a b) = length s"
  by (induction s) auto

lemma length_replaceAt: "length (replaceAt t) = length t"
  by (simp add: replaceAt_def length_replaceFirst)

lemma stripDate_cases: "stripDate t = t \<or> stripDate t \<in> set KNOWN_CLAUDE_BASES"
  by (auto simp: stripDate_def Let_def split: option.splits)

lemma length_stripDate_le: "length (stripDate t) \<le> length t"
  by (auto simp: stripDate_def Let_def split: option.splits)

lemma stripDate_known: "b \<in> set KNOWN_CLAUDE_BASES \<Longrightarrow> stripDate b = b"
  unfolding KNOWN_CLAUDE_BASES_def by (auto; code_simp)

lemma claudeStripped_known: "b \<in> set KNOWN_CLAUDE_BASES \<Longrightarrow> claudeStripped b"
  unfolding KNOWN_CLAUDE_BASES_def by (auto; code_simp)

lemma stripDate_idem: "stripDate (stripDate t) = stripDate t"
  using stripDate_cases [of t] by (auto simp: stripDate_known)

lemma claudeStripped_steps:
  assumes "claudeStripped y"
  shows "replaceAt (stripVersion (stripNested (stripAnthropic (trim y)))) = y"
proof -
  from assms have "stripAnthropic (trim y) = y" by (simp add: claudeStripped_def stripAnthropic_def)
  moreover from assms have "stripNested y = y" by (simp add: claudeStripped_def stripNested_def)
  moreover from assms have "stripVersion y = y" by (simp add: claudeStripped_def stripVersion_def)
  moreover from assms have "replaceAt y = y" by (simp add: claudeStripped_def replaceAt_def)
  ultimately show ?thesis by simp
qed

lemma claude_idem_if: "claudeStripped (normalizeClaudeModel x) \<Longrightarrow>
   normalizeClaudeModel (normalizeClaudeModel x) = normalizeClaudeModel x"
proof -
  assume a: "claudeStripped (normalizeClaudeModel x)"
  have "normalizeClaudeModel (normalizeClaudeModel x) = stripDate (normalizeClaudeModel x)"
    unfolding normalizeClaudeModel_def [of "normalizeClaudeModel x"] claudeStripped_steps [OF a] ..
  also have "\<dots> = normalizeClaudeModel x"
    by (simp add: normalizeClaudeModel_def stripDate_idem)
  finally show ?thesis .
qed

lemma includesStr_char: "includesStr s [c] \<longleftrightarrow> c \<in> set s"
  by (induction s) (auto simp: includesStr_def startsWith_def)

lemma count_replaceFirst:
  "a \<in> set s \<Longrightarrow> a \<noteq> b \<Longrightarrow> Suc (count_list (replaceFirst s a b) a) = count_list s a"
  by (induction s) auto

lemma claude_idem_only_if:
  assumes "normalizeClaudeModel y = y" shows "claudeStripped y"
proof -
  let ?a = "stripAnthropic (trim y)" let ?n = "stripNested ?a" let ?v = "stripVersion ?n"
  have "length (stripDate (replaceAt ?v)) = length y"
    using assms by (simp add: normalizeClaudeModel_def)
  with length_stripDate_le [of "replaceAt ?v"] length_replaceAt [of ?v]
       length_stripVersion_le [of ?n] length_stripNested_le [of ?a]
       length_stripAnthropic_le [of "trim y"] length_trim_le [of y]
  have v: "length ?v = length ?n" and n: "length ?n = length ?a"
    and a: "length ?a = length (trim y)" and b: "length (trim y) = length y"
    by linarith+
  from b have t: "trim y = y" by (rule length_trim_eq)
  from a have pa: "\<not> startsWith (trim y) ''anthropic.''" by (rule length_stripAnthropic_eq)
  hence ea: "?a = y" using t by (simp add: stripAnthropic_def)
  from n have pn: "nestedTail ?a = None" by (rule length_stripNested_eq)
  hence en: "?n = y" using ea by (simp add: stripNested_def)
  from v have pv: "matchVersion ?n = None" by (rule length_stripVersion_eq)
  hence ev: "?v = y" using en by (simp add: stripVersion_def)
  have pat: "\<not> includesStr y ''@''"
  proof
    assume inc: "includesStr y ''@''"
    hence mem: "CHR ''@'' \<in> set y" by (simp add: includesStr_char)
    from assms ev inc have fx: "stripDate (replaceFirst y (CHR ''@'') (CHR ''-'')) = y"
      by (simp add: normalizeClaudeModel_def replaceAt_def)
    from stripDate_cases [of "replaceFirst y (CHR ''@'') (CHR ''-'')"] show False
    proof
      assume "stripDate (replaceFirst y (CHR ''@'') (CHR ''-'')) = replaceFirst y (CHR ''@'') (CHR ''-'')"
      with fx have "replaceFirst y (CHR ''@'') (CHR ''-'') = y" by simp
      with count_replaceFirst [OF mem, of "CHR ''-''"] show False by simp
    next
      assume "stripDate (replaceFirst y (CHR ''@'') (CHR ''-'')) \<in> set KNOWN_CLAUDE_BASES"
      with fx have "y \<in> set KNOWN_CLAUDE_BASES" by simp
      hence "claudeStripped y" by (rule claudeStripped_known)
      with inc show False by (simp add: claudeStripped_def)
    qed
  qed
  from t pa pn pv pat ea en show ?thesis by (simp add: claudeStripped_def)
qed

text \<open>
  C9, as stated: each normalizer is idempotent on every input string. It is not: a second
  vendor prefix survives the first pass of the Codex normalizer, and a second version suffix
  survives the first pass of the Claude normalizer.
\<close>

theorem normalize_not_idempotent:
  "normalizeCodexModel (normalizeCodexModel ''openai/openai/gpt-5'')
     \<noteq> normalizeCodexModel ''openai/openai/gpt-5'' \<and>
   normalizeClaudeModel (normalizeClaudeModel ''claude-x-v1:0-v1:0'')
     \<noteq> normalizeClaudeModel ''claude-x-v1:0-v1:0''"
  by code_simp

text \<open>
  C9, amended: a normalizer is idempotent at an input exactly when its first pass leaves
  nothing to strip, that is, when the normalized name has no surrounding white space and no
  vendor prefix and, for the Claude family, no nested dotted prefix, no version suffix and
  no \<open>@\<close> marker.
\<close>

theorem normalize_idempotent_iff_stripped:
  "(normalizeCodexModel (normalizeCodexModel x) = normalizeCodexModel x
      \<longleftrightarrow> codexStripped (normalizeCodexModel x)) \<and>
   (normalizeClaudeModel (normalizeClaudeModel y) = normalizeClaudeModel y
      \<longleftrightarrow> claudeStripped (normalizeClaudeModel y))"
  using codex_idem_if [of x] codex_idem_only_if [of "normalizeCodexModel x"]
        claude_idem_if [of y] claude_idem_only_if [of "normalizeClaudeModel y"]
  by blast

theorem normalize_idempotent_witness:
  "codexStripped (normalizeCodexModel '' openai/gpt-5.2-codex-max'') \<and>
   normalizeCodexModel (normalizeCodexModel '' openai/gpt-5.2-codex-max'')
     = normalizeCodexModel '' openai/gpt-5.2-codex-max'' \<and>
   claudeStripped (normalizeClaudeModel ''us.anthropic.claude-sonnet-4-5-20250929-v1:0'') \<and>
   normalizeClaudeModel (normalizeClaudeModel ''us.anthropic.claude-sonnet-4-5-20250929-v1:0'')
     = normalizeClaudeModel ''us.anthropic.claude-sonnet-4-5-20250929-v1:0''"
proof -
  have c: "codexStripped (normalizeCodexModel '' openai/gpt-5.2-codex-max'')"
    by code_simp
  have a: "claudeStripped (normalizeClaudeModel ''us.anthropic.claude-sonnet-4-5-20250929-v1:0'')"
    by code_simp
  from c a normalize_idempotent_iff_stripped
         [of "'' openai/gpt-5.2-codex-max''" "''us.anthropic.claude-sonnet-4-5-20250929-v1:0''"]
  show ?thesis by blast
qed

section \<open>Properties of the cost computation\<close>

text \<open>
  C4: for a model whose pricing entry has the base rates 3 and 15 per million input and
  output tokens and, above a threshold of 200000 tokens taken per category, the rates 6 and
  22.5, a request of 1000000 input and 1000000 output tokens and no cache tokens costs
  5.4 for the input (200000 at 3 and 800000 at 6) plus 21 for the output (200000 at 15
  and 800000 at 22.5), in total exactly 26.4.
\<close>

theorem tiered_pricing_concrete_case:
  assumes "MODEL_PRICING m = Some p"
    and "rateInput p = 3" and "rateOutput p = 15"
    and "aboveThreshold p = Some t"
    and "thresholdTokens t = 200000" and "tierInput t = 6" and "tierOutput t = 45 / 2"
  shows "tieredCost 1000000 (rateInput p) (map_option tierInput (aboveThreshold p))
           (map_option thresholdTokens (aboveThreshold p))
           = (200000 / 1000000) * 3 + (800000 / 1000000) * 6 \<and>
         (200000 / 1000000) * 3 + (800000 / 1000000) * (6::rat) = 27 / 5 \<and>
         tieredCost 1000000 (rateOutput p) (map_option tierOutput (aboveThreshold p))
           (map_option thresholdTokens (aboveThreshold p))
           = (200000 / 1000000) * 15 + (800000 / 1000000) * (45 / 2) \<and>
         (200000 / 1000000) * 15 + (800000 / 1000000) * (45 / 2 :: rat) = 21 \<and>
         calculateCost m 1000000 1000000 0 0 = 132 / 5"
proof -
  have i: "tieredCost 1000000 3 (Some 6) (Some 200000) = 27 / 5"
    by (simp add: tieredCost_def)
  have out: "tieredCost 1000000 15 (Some (45 / 2)) (Some 200000) = 21"
    by (simp add: tieredCost_def)
  have z: "\<And>b a. tieredCost 0 b a (Some 200000) = 0"
    by (simp add: tieredCost_def split: option.splits)
  have "\<lfloor>52800001 / 2 :: rat\<rfloor> = 26400000"
    by (rule floor_unique) simp_all
  hence r: "jsRound 26400000 = 26400000"
    by (simp add: jsRound_def)
  have "calculateCost m 1000000 1000000 0 0 = 132 / 5"
    by (simp add: assms calculateCost_def costWith_def i out z r)
  thus ?thesis by (simp add: assms i out)
qed

theorem tiered_pricing_concrete_case_witness:
  "MODEL_PRICING ''claude-sonnet-4-5''
     = Some (tiered 3 15 (3/10) (15/4) 200000 6 (45/2) (6/10) (15/2)) \<and>
   calculateCost ''claude-sonnet-4-5'' 1000000 1000000 0 0 = 132 / 5"
proof -
  have m: "MODEL_PRICING ''claude-sonnet-4-5''
             = Some (tiered 3 15 (3/10) (15/4) 200000 6 (45/2) (6/10) (15/2))"
    by (simp add: MODEL_PRICING_def MODEL_PRICING_table_def)
  from tiered_pricing_concrete_case [OF m, of
         "\<lparr>thresholdTokens = 200000, tierInput = 6, tierOutput = 45 / 2,
           tierCacheRead = Some (6/10), tierCacheCreation = Some (15/2)\<rparr>"] m
  show ?thesis by (simp add: tiered_def)
qed

section \<open>Lines, loops and single-file scans\<close>

lemma map_sum_fst: "map_sum id (g \<circ> fst) r = map_sum id g (map_sum id fst r)"
  by (cases r) simp_all

lemma splitOn_nonempty: "splitOn sep s \<noteq> []"
  by (induction s) (auto split: list.splits)

lemma splitOn_append: "splitOn sep (a @ sep # b) = splitOn sep a @ splitOn sep b"
proof (induction a)
  case Nil
  show ?case by simp
next
  case (Cons c a)
  obtain l ls where s: "splitOn sep a = l # ls"
    using splitOn_nonempty [of sep a] by (cases "splitOn sep a") auto
  with Cons show ?case by simp
qed

lemma splitNL_append: "splitNL (a @ CHR 0x0A # b) = splitNL a @ splitNL b"
  by (simp add: splitNL_def splitOn_append)





lemma claudeParseLine_empty: "claudeParseLine P [] = Inr Skipped"
  by (simp add: claudeParseLine_def)

lemma claudeLoop_append:
  "claudeLoop P m k (ls1 @ ls2) =
     (case claudeLoop P m k ls1 of
        Inl e \<Rightarrow> Inl e
      | Inr (m1, k1) \<Rightarrow> claudeLoop P m1 k1 ls2)"
  by (induction ls1 arbitrary: m k) (auto split: sum.splits ClaudeLine.splits)






lemma codexScan_single:
  "codexScan P disk [p] fs =
     (case codexScanFile P disk fs p of
        Inl e \<Rightarrow> Inl e
      | Inr (es, fs') \<Rightarrow> Inr (es, fs' |` {p}))"
  by (simp add: codexScan_def split: sum.splits prod.splits)






lemma codexScan_fresh:
  assumes "fs p = None" and "content file \<noteq> []"
  shows "codexScan P [p \<mapsto> file] [p] fs =
     (case codexParseFile P file 0 (Some JNull) None of
        Inl e \<Rightarrow> Inl e
      | Inr (es, lm, lt) \<Rightarrow>
          Inr (es, (fs(p \<mapsto> \<lparr>cx_filePath = p, cx_lastSize = length (content file),
                               cx_lastMtimeMs = mtimeMs file, cx_lastOffset = length (content file),
                               cx_lastTotals = lt, cx_lastModel = lm, cx_entries = es\<rparr>)) |` {p}))"
  using assms
  by (simp add: codexScan_single codexScanFile_def Let_def split: sum.splits prod.splits)


lemma codexScan_empty_file:
  assumes "content file = []"
  shows "codexScan P [p \<mapsto> file] [p] fs = Inr ([], fs |` {p})"
  using assms by (simp add: codexScan_single codexScanFile_def)

lemma codexScan_restrict_None:
  assumes "fs p = None"
  shows "map_sum id fst (codexScan P [p \<mapsto> file] [p] (fs |` {p}))
       = map_sum id fst (codexScan P [p \<mapsto> file] [p] fs)"
proof (cases "content file = []")
  case True
  then show ?thesis by (simp add: codexScan_empty_file)
next
  case False
  with assms show ?thesis
    by (simp add: codexScan_fresh split: sum.splits)
qed


lemma claudeScan_single:
  "claudeScan P disk [p] fs =
     (case claudeScanFile P disk fs p of
        Inl e \<Rightarrow> Inl e
      | Inr (es, fs') \<Rightarrow> Inr (es, fs' |` {p}))"
  by (simp add: claudeScan_def split: sum.splits prod.splits)

lemma claudeLoop_blank: "claudeLoop P m k (ls @ [[]]) = claudeLoop P m k ls"
  by (simp add: claudeLoop_append claudeParseLine_empty split: sum.splits)







lemma claudeScan_fresh:
  assumes "fs p = None" and "content dfile \<noteq> []"
  shows "claudeScan P [p \<mapsto> dfile] [p] fs =
     (case claudeParseFile P dfile 0 of
        Inl e \<Rightarrow> Inl e
      | Inr es \<Rightarrow>
          Inr (es, (fs(p \<mapsto> \<lparr>cl_filePath = p, cl_lastSize = length (content dfile),
                               cl_lastMtimeMs = mtimeMs dfile, cl_lastOffset = length (content dfile),
                               cl_entries = es\<rparr>)) |` {p}))"
  using assms
  by (simp add: claudeScan_single claudeScanFile_def Let_def split: sum.splits prod.splits)




lemma splitOn_none: "sep \<notin> set s \<Longrightarrow> splitOn sep s = [s]"
  by (induction s) auto

lemma splitNL_fragmentOf:
  "\<forall>l \<in> set ls. CHR 0x0A \<notin> set l \<Longrightarrow> splitNL (fragmentOf ls) = ls @ [[]]"
proof (induction ls)
  case Nil
  show ?case by (simp add: fragmentOf_def splitNL_def)
next
  case (Cons l ls)
  hence "splitNL l = [l]" by (simp add: splitNL_def splitOn_none)
  moreover have "fragmentOf (l # ls) = l @ CHR 0x0A # fragmentOf ls" by (simp add: fragmentOf_def)
  ultimately show ?case using Cons by (simp add: splitNL_append)
qed


lemma fragmentOf_nonempty: "ls \<noteq> [] \<Longrightarrow> fragmentOf ls \<noteq> []"
  by (cases ls) (simp_all add: fragmentOf_def)



lemma claudeScan_fileOf:
  assumes "ls \<noteq> []" and "\<forall>l \<in> set ls. CHR 0x0A \<notin> set l"
  shows "map_sum id fst (claudeScan P [p \<mapsto> fileOf ls] [p] Map.empty)
           = map_sum id (\<lambda>(m, k). map snd m @ k) (claudeLoop P [] [] ls)"
proof -
  have c: "content (fileOf ls) \<noteq> []" using assms(1) by (simp add: fileOf_def fragmentOf_nonempty)
  have "claudeParseFile P (fileOf ls) 0
          = map_sum id (\<lambda>(m, k). map snd m @ k) (claudeLoop P [] [] ls)"
    using c assms(2)
    by (cases "claudeLoop P [] [] ls")
       (auto simp: claudeParseFile_def fileOf_def splitNL_fragmentOf claudeLoop_blank)
  thus ?thesis using c
    by (cases "claudeLoop P [] [] ls") (auto simp: claudeScan_fresh)
qed


section \<open>Properties of the ledger\<close>

lemma dedupKey_row_id [simp]: "dedupKey (r\<lparr>row_id := n\<rparr>) = dedupKey r"
  by (simp add: dedupKey_def)












section \<open>Properties of the counter-oriented scanner\<close>
















lemma sample_no_newline:
  "list_all (\<lambda>l. CHR 0x0A \<notin> set l)
     [assistantLine ''msg_stream_1'' ''req_stream_1'' 100 10 0,
      assistantLine ''msg_stream_1'' ''req_stream_1'' 100 50 0,
      assistantLine ''msg_stream_1'' ''req_stream_1'' 100 100 0,
      assistantLine ''msg_002'' ''req_002'' 100 50 200,
      turnContextLine ''gpt-5'', tokenCountLine 100 0 50, tokenCountLine 300 50 150,
      tokenCountLine 500 100 250, tokenCountLine 100 200 50, threeModelsLine]"
  by code_simp


















section \<open>Properties of incremental scanning and of the message-oriented scanner\<close>

lemma sample_line_a10:
  "claudeParseLine samplePlatform (assistantLine ''msg_stream_1'' ''req_stream_1'' 100 10 0) =
     Inr (Keyed ''msg_stream_1:req_stream_1''
          \<lparr>cl_dayKey = ''2026-02-07'', cl_model = ''claude-sonnet-4-5'', cl_inputTokens = 100,
           cl_outputTokens = 10, cl_cacheReadInputTokens = 0, cl_cacheCreationInputTokens = 0,
           cl_timestamp = Some (JStr ''2026-02-07T10:00:00.000Z''), cl_costUSD = None\<rparr>)"
  by code_simp

lemma sample_line_a50:
  "claudeParseLine samplePlatform (assistantLine ''msg_stream_1'' ''req_stream_1'' 100 50 0) =
     Inr (Keyed ''msg_stream_1:req_stream_1''
          \<lparr>cl_dayKey = ''2026-02-07'', cl_model = ''claude-sonnet-4-5'', cl_inputTokens = 100,
           cl_outputTokens = 50, cl_cacheReadInputTokens = 0, cl_cacheCreationInputTokens = 0,
           cl_timestamp = Some (JStr ''2026-02-07T10:00:00.000Z''), cl_costUSD = None\<rparr>)"
  by code_simp

lemma sample_line_a100:
  "claudeParseLine samplePlatform (assistantLine ''msg_stream_1'' ''req_stream_1'' 100 100 0) =
     Inr (Keyed ''msg_stream_1:req_stream_1''
          \<lparr>cl_dayKey = ''2026-02-07'', cl_model = ''claude-sonnet-4-5'', cl_inputTokens = 100,
           cl_outputTokens = 100, cl_cacheReadInputTokens = 0, cl_cacheCreationInputTokens = 0,
           cl_timestamp = Some (JStr ''2026-02-07T10:00:00.000Z''), cl_costUSD = None\<rparr>)"
  by code_simp


lemma sample_dedup_scan:
  "map_sum id fst
     (claudeScan samplePlatform
        [''/c/a.jsonl'' \<mapsto> fileOf [assistantLine ''msg_stream_1'' ''req_stream_1'' 100 10 0,
                                    assistantLine ''msg_stream_1'' ''req_stream_1'' 100 50 0,
                                    assistantLine ''msg_stream_1'' ''req_stream_1'' 100 100 0]]
        [''/c/a.jsonl''] Map.empty) =
     Inr [\<lparr>cl_dayKey = ''2026-02-07'', cl_model = ''claude-sonnet-4-5'', cl_inputTokens = 100,
           cl_outputTokens = 100, cl_cacheReadInputTokens = 0, cl_cacheCreationInputTokens = 0,
           cl_timestamp = Some (JStr ''2026-02-07T10:00:00.000Z''), cl_costUSD = None\<rparr>]"
proof -
  have "map_sum id fst
     (claudeScan samplePlatform
        [''/c/a.jsonl'' \<mapsto> fileOf [assistantLine ''msg_stream_1'' ''req_stream_1'' 100 10 0,
                                    assistantLine ''msg_stream_1'' ''req_stream_1'' 100 50 0,
                                    assistantLine ''msg_stream_1'' ''req_stream_1'' 100 100 0]]
        [''/c/a.jsonl''] Map.empty)
     = map_sum id (\<lambda>(m, k). map snd m @ k) (claudeLoop samplePlatform [] []
         [assistantLine ''msg_stream_1'' ''req_stream_1'' 100 10 0,
          assistantLine ''msg_stream_1'' ''req_stream_1'' 100 50 0,
          assistantLine ''msg_stream_1'' ''req_stream_1'' 100 100 0])"
    by (rule claudeScan_fileOf) (use sample_no_newline in simp_all)
  thus ?thesis by (simp add: sample_line_a10 sample_line_a50 sample_line_a100)
qed








text \<open>
  C2: lines of one parsed range that share a (message-id, request-id) pair give one event,
  and the event has the counts of the first of them. The scanner keeps one event per pair
  but with the counts of the last line: on the three lines of the repository's own
  deduplication test, with 10, 50 and 100 output tokens, the event has 100 output tokens.
\<close>

theorem claude_dedup_keeps_last_line:
  "map_sum id (map cl_outputTokens \<circ> fst)
     (claudeScan samplePlatform
        [''/c/a.jsonl'' \<mapsto> fileOf [assistantLine ''msg_stream_1'' ''req_stream_1'' 100 10 0,
                                    assistantLine ''msg_stream_1'' ''req_stream_1'' 100 50 0,
                                    assistantLine ''msg_stream_1'' ''req_stream_1'' 100 100 0]]
        [''/c/a.jsonl''] Map.empty) = Inr [100]"
  unfolding map_sum_fst sample_dedup_scan by simp






section \<open>Properties of the root discovery\<close>

lemma projectRootsLoop_map:
  "projectRootsLoop N roots parts =
     roots @ map (\<lambda>entry. if basename N entry = ''projects'' then entry
                           else join N [entry, ''projects''])
                (filter (\<lambda>entry. entry \<noteq> []) (map trim parts))"
  by (induction parts arbitrary: roots) (simp_all add: Let_def)

text \<open>
  C8, as stated: each of the two families splits its override on commas and appends its
  subdirectory to an entry unless the entry ends with it. The counter-oriented family does
  neither: its override is one directory, and \<open>sessions\<close> is appended to it in any case.
\<close>

theorem codex_override_is_one_directory:
  "getSessionRoots sampleNode (Some ''/a,/b'') = [''/a,/b/sessions''] \<and>
   specOverrideRoots sampleNode ''sessions'' ''/a,/b'' = [''/a/sessions'', ''/b/sessions''] \<and>
   getSessionRoots sampleNode (Some ''/data/sessions'') = [''/data/sessions/sessions''] \<and>
   specOverrideRoots sampleNode ''sessions'' ''/data/sessions'' = [''/data/sessions'']"
  by code_simp

text \<open>
  C8, amended: when the override of the message-oriented family is set and not blank, its
  value is trimmed and split on commas, each entry is trimmed, blank entries are dropped,
  and each remaining entry is a root: itself when its last segment is \<open>projects\<close>, else with
  \<open>projects\<close> appended; for entries without surrounding blanks this is the rule as the
  specification words it. When the override of the counter-oriented family is set and not
  blank, its trimmed value is one directory, never split: the roots are that directory with
  \<open>sessions\<close> appended and, when it exists, with \<open>archived_sessions\<close> appended.
\<close>

theorem override_roots:
  assumes "trim v \<noteq> []"
  shows "getProjectRoots N (Some v) =
           map (\<lambda>entry. if basename N entry = ''projects'' then entry
                         else join N [entry, ''projects''])
               (filter (\<lambda>entry. entry \<noteq> []) (map trim (splitOn (CHR '','') (trim v)))) \<and>
         ((\<forall>entry \<in> set (splitOn (CHR '','') (trim v)). trim entry = entry \<and> entry \<noteq> [])
            \<longrightarrow> getProjectRoots N (Some v) = specOverrideRoots N ''projects'' (trim v)) \<and>
         getSessionRoots N (Some v) =
           join N [trim v, ''sessions''] #
           (if existsSync N (join N [trim v, ''archived_sessions''])
            then [join N [trim v, ''archived_sessions'']] else [])"
proof -
  have p: "getProjectRoots N (Some v) =
           map (\<lambda>entry. if basename N entry = ''projects'' then entry
                         else join N [entry, ''projects''])
               (filter (\<lambda>entry. entry \<noteq> []) (map trim (splitOn (CHR '','') (trim v))))"
    using assms by (simp add: getProjectRoots_def projectRootsLoop_map)
  have "(\<forall>entry \<in> set (splitOn (CHR '','') (trim v)). trim entry = entry \<and> entry \<noteq> [])
          \<Longrightarrow> filter (\<lambda>entry. entry \<noteq> []) (map trim (splitOn (CHR '','') (trim v)))
                = splitOn (CHR '','') (trim v)"
    by (simp add: filter_id_conv map_idI)
  with p have s: "(\<forall>entry \<in> set (splitOn (CHR '','') (trim v)). trim entry = entry \<and> entry \<noteq> [])
            \<longrightarrow> getProjectRoots N (Some v) = specOverrideRoots N ''projects'' (trim v)"
    by (simp add: specOverrideRoots_def)
  have c: "getSessionRoots N (Some v) =
           join N [trim v, ''sessions''] #
           (if existsSync N (join N [trim v, ''archived_sessions''])
            then [join N [trim v, ''archived_sessions'']] else [])"
    using assms by (simp add: getSessionRoots_def Let_def)
  from p s c show ?thesis by blast
qed

theorem override_roots_witness:
  "trim '' /a, /b/projects,, /c '' \<noteq> [] \<and>
   getProjectRoots sampleNode (Some '' /a, /b/projects,, /c '')
     = [''/a/projects'', ''/b/projects'', ''/c/projects''] \<and>
   splitOn (CHR '','') (trim ''/a,/b/projects'') = [''/a'', ''/b/projects''] \<and>
   getProjectRoots sampleNode (Some ''/a,/b/projects'')
     = specOverrideRoots sampleNode ''projects'' ''/a,/b/projects'' \<and>
   getSessionRoots sampleNode (Some '' /data '') = [''/data/sessions'']"
proof -
  have t1: "trim '' /a, /b/projects,, /c '' \<noteq> []" by code_simp
  have t2: "trim ''/a,/b/projects'' \<noteq> []" by code_simp
  have t3: "trim '' /data '' \<noteq> []" by code_simp
  have e: "\<forall>entry \<in> set (splitOn (CHR '','') (trim ''/a,/b/projects'')).
             trim entry = entry \<and> entry \<noteq> []"
    by code_simp
  have v1: "map (\<lambda>entry. if basename sampleNode entry = ''projects'' then entry
                         else join sampleNode [entry, ''projects''])
               (filter (\<lambda>entry. entry \<noteq> [])
                  (map trim (splitOn (CHR '','') (trim '' /a, /b/projects,, /c ''))))
            = [''/a/projects'', ''/b/projects'', ''/c/projects'']"
    by code_simp
  have v2: "trim ''/a,/b/projects'' = ''/a,/b/projects''" by code_simp
  have v3: "join sampleNode [trim '' /data '', ''sessions''] #
           (if existsSync sampleNode (join sampleNode [trim '' /data '', ''archived_sessions''])
            then [join sampleNode [trim '' /data '', ''archived_sessions'']] else [])
            = [''/data/sessions'']"
    by code_simp
  have sp: "splitOn (CHR '','') (trim ''/a,/b/projects'') = [''/a'', ''/b/projects'']"
    by code_simp
  from override_roots [OF t1, of sampleNode]
  have a: "getProjectRoots sampleNode (Some '' /a, /b/projects,, /c '')
             = [''/a/projects'', ''/b/projects'', ''/c/projects'']"
    unfolding v1 by (rule conjunct1)
  from override_roots [OF t2, of sampleNode] e
  have b: "getProjectRoots sampleNode (Some ''/a,/b/projects'')
             = specOverrideRoots sampleNode ''projects'' ''/a,/b/projects''"
    unfolding v2 by (elim conjE) (erule (1) mp)
  from override_roots [OF t3, of sampleNode]
  have c: "getSessionRoots sampleNode (Some '' /data '') = [''/data/sessions'']"
    unfolding v3 by (elim conjE)
  from t1 sp a b c show ?thesis by (intro conjI)
qed

end
